theory Spec2Isabelle
  imports Complex_Main "HOL-Library.Sublist"
begin

section \<open>Data model\<close>

text \<open>
  The three front-end shims \<^verbatim>\<open>lora_loader_remote.js\<close>, \<^verbatim>\<open>lora_stacker_remote.js\<close> and
  \<^verbatim>\<open>wanvideo_remote.js\<close> keep, for every node, a text widget (\<^verbatim>\<open>inputWidget\<close>) and a
  structured widget (\<^verbatim>\<open>lorasWidget\<close>) consistent with each other. A lora entry carries a
  name, a strength and an active flag; the strength is only stored and copied, never
  computed with.
\<close>

record LoraEntry =
  name :: string
  strength :: rat
  active :: bool

text \<open>
  Calls that leave the node are recorded in a log, in the order in which they are made:
  \<^verbatim>\<open>updateConnectedTriggerWords(node, names)\<close>, \<^verbatim>\<open>updateDownstreamLoaders(node)\<close>, and every
  assignment \<^verbatim>\<open>inputWidget.value = text\<close> handed to the widget host.
\<close>

datatype effect =
    TriggerWords "string set"
  | DownstreamLoaders
  | TextWrite string

text \<open>
  The closure installed as \<^verbatim>\<open>inputWidget.callback\<close>: one per shim. An absent value stands
  for a \<^verbatim>\<open>callback\<close> property that is not a function.
\<close>

datatype handler = LoaderCallback | StackerCallback | WanVideoCallback

record InputWidget =
  wvalue :: "string option"
  callback :: "handler option"

text \<open>
  A node: its class name, its execution mode (\<open>None\<close> is \<^verbatim>\<open>undefined\<close>), the text widget
  (\<open>None\<close> when \<^verbatim>\<open>node.inputWidget\<close> is missing), the value of the structured widget
  (\<open>None\<close> is a falsy value; the widget itself is created by \<^verbatim>\<open>onNodeCreated\<close> before any
  callback is installed), the two closure variables \<^verbatim>\<open>isUpdating\<close> and \<^verbatim>\<open>isSyncingInput\<close>,
  the argument of the pending debounced call, and the log of outgoing calls.
\<close>

record Node =
  comfyClass :: string
  mode :: "int option"
  inputWidget :: "InputWidget option"
  lorasValue :: "LoraEntry list option"
  isUpdating :: bool
  isSyncingInput :: bool
  pending :: "LoraEntry list option"
  effects :: "effect list"

text \<open>
  The functions imported from the ComfyUI-Lora-Manager extension are not part of this
  repository; they are parameters of the model, taken to return normally (none of them
  raises inside a \<^verbatim>\<open>try\<close> block). The widget host is a collaborator too:
  whether assigning a widget's \<^verbatim>\<open>value\<close> notifies the widget's callback synchronously is a
  parameter (\<open>textNotifies\<close> for the text widget, \<open>listNotifies\<close> for the structured one).
\<close>

record Env =
  mergeLoras :: "string \<Rightarrow> LoraEntry list \<Rightarrow> LoraEntry list"
  applyLoraValuesToText :: "string option \<Rightarrow> LoraEntry list \<Rightarrow> string"
  collectActiveLorasFromChain :: "Node \<Rightarrow> string set"
  getActiveLorasFromNode :: "Node \<Rightarrow> string set"
  textNotifies :: bool
  listNotifies :: bool

section \<open>Collaborator calls\<close>

definition updateConnectedTriggerWords :: "string set \<Rightarrow> Node \<Rightarrow> Node" where
  "updateConnectedTriggerWords names n = n\<lparr>effects := effects n @ [TriggerWords names]\<rparr>"

definition updateDownstreamLoaders :: "Node \<Rightarrow> Node" where
  "updateDownstreamLoaders n = n\<lparr>effects := effects n @ [DownstreamLoaders]\<rparr>"

text \<open>
  Modelled from the spec: \<^verbatim>\<open>debounce\<close> is imported from \<^verbatim>\<open>lora_syntax_utils.js\<close> of the
  extension. The spec describes a trailing-edge debounce with at most one pending call per
  node: a new call replaces the pending one, and only the last call's argument fires.
\<close>

definition scheduleInputSync :: "LoraEntry list \<Rightarrow> Node \<Rightarrow> Node" where
  "scheduleInputSync lorasValue' n = n\<lparr>pending := Some lorasValue'\<rparr>"

text \<open>
  Assigning \<^verbatim>\<open>lorasWidget.value\<close>: the value is stored and, on a notifying host, the
  widget's own callback \<open>cb\<close> is called with it before the assignment returns.
\<close>

definition setLorasValue ::
  "Env \<Rightarrow> (LoraEntry list \<Rightarrow> Node \<Rightarrow> Node) \<Rightarrow> LoraEntry list \<Rightarrow> Node \<Rightarrow> Node" where
  "setLorasValue env cb v n =
     (let n1 = n\<lparr>lorasValue := Some v\<rparr>
      in if listNotifies env then cb v n1 else n1)"

section \<open>Lora Loader (Remote): the two change handlers\<close>

text \<open>\<^verbatim>\<open>lora_loader_remote.js\<close>, lines 126 to 136: the callback of the structured widget.\<close>

definition loader_lorasCallback :: "Env \<Rightarrow> LoraEntry list \<Rightarrow> Node \<Rightarrow> Node" where
  "loader_lorasCallback env v n =
     (if isUpdating n then n
      else
        let n1 = n\<lparr>isUpdating := True\<rparr>;
            allActiveLoraNames = collectActiveLorasFromChain env n1;
            n2 = updateConnectedTriggerWords allActiveLoraNames n1;
            n3 = n2\<lparr>isUpdating := False\<rparr>
        in scheduleInputSync v n3)"

text \<open>\<^verbatim>\<open>lora_loader_remote.js\<close>, lines 139 to 151: the callback of the text widget.\<close>

definition loader_inputCallback :: "Env \<Rightarrow> string \<Rightarrow> Node \<Rightarrow> Node" where
  "loader_inputCallback env v n =
     (if isUpdating n then n
      else
        let n1 = n\<lparr>isUpdating := True\<rparr>;
            currentLoras = (case lorasValue n1 of None \<Rightarrow> [] | Some l \<Rightarrow> l);
            mergedLoras = mergeLoras env v currentLoras;
            n2 = setLorasValue env (loader_lorasCallback env) mergedLoras n1;
            allActiveLoraNames = collectActiveLorasFromChain env n2;
            n3 = updateConnectedTriggerWords allActiveLoraNames n2
        in n3\<lparr>isUpdating := False\<rparr>)"

section \<open>Lora Stacker (Remote): the two change handlers\<close>

text \<open>\<^verbatim>\<open>this.mode === undefined || this.mode === 0 || this.mode === 3\<close>\<close>

definition isNodeActive :: "Node \<Rightarrow> bool" where
  "isNodeActive n = (mode n = None \<or> mode n = Some 0 \<or> mode n = Some 3)"

text \<open>
  \<^verbatim>\<open>value.forEach((lora) => { if (lora.active) activeLoraNames.add(lora.name); })\<close>
\<close>

definition activeNames :: "LoraEntry list \<Rightarrow> string set" where
  "activeNames v = set (map name (filter active v))"

text \<open>\<^verbatim>\<open>lora_stacker_remote.js\<close>, lines 47 to 62.\<close>

definition stacker_lorasCallback :: "Env \<Rightarrow> LoraEntry list \<Rightarrow> Node \<Rightarrow> Node" where
  "stacker_lorasCallback env v n =
     (if isUpdating n then n
      else
        let n1 = n\<lparr>isUpdating := True\<rparr>;
            activeLoraNames = (if isNodeActive n1 then activeNames v else {});
            n2 = updateConnectedTriggerWords activeLoraNames n1;
            n3 = updateDownstreamLoaders n2;
            n4 = n3\<lparr>isUpdating := False\<rparr>
        in scheduleInputSync v n4)"

text \<open>
  \<^verbatim>\<open>lora_stacker_remote.js\<close>, lines 67 to 81. The structured widget is stored in
  \<^verbatim>\<open>this.lorasWidget\<close> on line 65, before this callback is installed, so the guards
  \<^verbatim>\<open>this.lorasWidget?.value\<close> and \<^verbatim>\<open>if (this.lorasWidget)\<close> always pass.
\<close>

definition stacker_inputCallback :: "Env \<Rightarrow> string \<Rightarrow> Node \<Rightarrow> Node" where
  "stacker_inputCallback env v n =
     (if isUpdating n then n
      else
        let n1 = n\<lparr>isUpdating := True\<rparr>;
            currentLoras = (case lorasValue n1 of None \<Rightarrow> [] | Some l \<Rightarrow> l);
            mergedLoras = mergeLoras env v currentLoras;
            n2 = setLorasValue env (stacker_lorasCallback env) mergedLoras n1;
            activeLoraNames = (if isNodeActive n2 then getActiveLorasFromNode env n2 else {});
            n3 = updateConnectedTriggerWords activeLoraNames n2;
            n4 = updateDownstreamLoaders n3
        in n4\<lparr>isUpdating := False\<rparr>)"

section \<open>WanVideo Lora Select (Remote): the two change handlers\<close>

text \<open>\<^verbatim>\<open>wanvideo_remote.js\<close>, lines 45 to 56.\<close>

definition wanvideo_lorasCallback :: "Env \<Rightarrow> LoraEntry list \<Rightarrow> Node \<Rightarrow> Node" where
  "wanvideo_lorasCallback env v n =
     (if isUpdating n then n
      else
        let n1 = n\<lparr>isUpdating := True\<rparr>;
            activeLoraNames = activeNames v;
            n2 = updateConnectedTriggerWords activeLoraNames n1;
            n3 = n2\<lparr>isUpdating := False\<rparr>
        in scheduleInputSync v n3)"

text \<open>
  \<^verbatim>\<open>wanvideo_remote.js\<close>, lines 60 to 72, with the same guards on \<^verbatim>\<open>this.lorasWidget\<close>, which is
  stored on line 58.
\<close>

definition wanvideo_inputCallback :: "Env \<Rightarrow> string \<Rightarrow> Node \<Rightarrow> Node" where
  "wanvideo_inputCallback env v n =
     (if isUpdating n then n
      else
        let n1 = n\<lparr>isUpdating := True\<rparr>;
            currentLoras = (case lorasValue n1 of None \<Rightarrow> [] | Some l \<Rightarrow> l);
            mergedLoras = mergeLoras env v currentLoras;
            n2 = setLorasValue env (wanvideo_lorasCallback env) mergedLoras n1;
            activeLoraNames = getActiveLorasFromNode env n2;
            n3 = updateConnectedTriggerWords activeLoraNames n2
        in n3\<lparr>isUpdating := False\<rparr>)"

section \<open>Dispatch through the widget\<close>

text \<open>Calling \<^verbatim>\<open>inputWidget.callback(value)\<close> runs the closure of the node's shim.\<close>

definition invokeInputCallback :: "Env \<Rightarrow> handler \<Rightarrow> string \<Rightarrow> Node \<Rightarrow> Node" where
  "invokeInputCallback env h v n =
     (case h of
        LoaderCallback \<Rightarrow> loader_inputCallback env v n
      | StackerCallback \<Rightarrow> stacker_inputCallback env v n
      | WanVideoCallback \<Rightarrow> wanvideo_inputCallback env v n)"

text \<open>The callback handed to \<^verbatim>\<open>addLorasWidget\<close> by the same shim.\<close>

definition invokeLorasCallback :: "Env \<Rightarrow> handler \<Rightarrow> LoraEntry list \<Rightarrow> Node \<Rightarrow> Node" where
  "invokeLorasCallback env h v n =
     (case h of
        LoaderCallback \<Rightarrow> loader_lorasCallback env v n
      | StackerCallback \<Rightarrow> stacker_lorasCallback env v n
      | WanVideoCallback \<Rightarrow> wanvideo_lorasCallback env v n)"

section \<open>The debounced text rewrite\<close>

text \<open>
  Assigning \<^verbatim>\<open>inputWidget.value\<close> on the widget \<open>w\<close> of the node: the value is stored, the
  assignment is logged and, on a notifying host, the widget's callback is called with the
  new value before the assignment returns.
\<close>

definition setInputValue :: "Env \<Rightarrow> InputWidget \<Rightarrow> string \<Rightarrow> Node \<Rightarrow> Node" where
  "setInputValue env w v n =
     (let n1 = n\<lparr>inputWidget := Some (w\<lparr>wvalue := Some v\<rparr>),
                  effects := effects n @ [TextWrite v]\<rparr>
      in if textNotifies env
         then (case callback w of None \<Rightarrow> n1 | Some h \<Rightarrow> invokeInputCallback env h v n1)
         else n1)"

text \<open>
  The function wrapped by \<^verbatim>\<open>debounce\<close> (\<^verbatim>\<open>lora_loader_remote.js\<close> lines 110 to 121, the same
  text in \<^verbatim>\<open>lora_stacker_remote.js\<close> lines 31 to 42 and \<^verbatim>\<open>wanvideo_remote.js\<close> lines 32 to 43).
  The closure is only ever created on a node whose text widget exists; without a widget
  the read \<^verbatim>\<open>inputWidget.value\<close> raises inside \<^verbatim>\<open>try\<close> and only the \<^verbatim>\<open>finally\<close> block runs.
\<close>

definition inputSync :: "Env \<Rightarrow> LoraEntry list \<Rightarrow> Node \<Rightarrow> Node" where
  "inputSync env lorasValue' n =
     (if isSyncingInput n then n
      else
        let n1 = n\<lparr>isSyncingInput := True, isUpdating := True\<rparr>;
            n2 = (case inputWidget n1 of
                    None \<Rightarrow> n1
                  | Some w \<Rightarrow>
                      let nextText = applyLoraValuesToText env (wvalue w) lorasValue'
                      in if wvalue w \<noteq> Some nextText then setInputValue env w nextText n1
                         else n1)
        in n2\<lparr>isUpdating := False, isSyncingInput := False\<rparr>)"

text \<open>
  Modelled from the spec: the debounce timer of \<^verbatim>\<open>debounce\<close> (imported from the extension)
  fires once the quiescence delay has passed, with the argument of the last call; after
  that no call is pending.
\<close>

definition fireInputSync :: "Env \<Rightarrow> Node \<Rightarrow> Node" where
  "fireInputSync env n =
     (case pending n of
        None \<Rightarrow> n
      | Some v \<Rightarrow> inputSync env v (n\<lparr>pending := None\<rparr>))"

definition isTextWrite :: "effect \<Rightarrow> bool" where
  "isTextWrite e = (case e of TextWrite _ \<Rightarrow> True | _ \<Rightarrow> False)"

section \<open>The lora-code update event\<close>

text \<open>
  \<^verbatim>\<open>String.prototype.trim\<close> removes white space and line terminators from both ends.
  Strings are lists of 8-bit characters read as the code points U+0000 to U+00FF; in that
  range the characters removed are TAB, LF, VT, FF, CR, SPACE and NO-BREAK SPACE.
\<close>

definition isWhiteSpace :: "char \<Rightarrow> bool" where
  "isWhiteSpace c =
     (c = CHR 0x09 \<or> c = CHR 0x0A \<or> c = CHR 0x0B \<or> c = CHR 0x0C \<or> c = CHR 0x0D \<or>
      c = CHR 0x20 \<or> c = CHR 0xA0)"

definition trim :: "string \<Rightarrow> string" where
  "trim s = rev (dropWhile isWhiteSpace (rev (dropWhile isWhiteSpace s)))"

text \<open>
  Lines 66 to 73 of \<^verbatim>\<open>updateNodeLoraCode\<close>: the text assigned to the widget, from the mode,
  the widget's value and the payload.
\<close>

definition nextValue :: "string \<Rightarrow> string option \<Rightarrow> string \<Rightarrow> string" where
  "nextValue md cur loraCode =
     (let currentValue = (case cur of None \<Rightarrow> [] | Some s \<Rightarrow> s)
      in if md = ''replace'' then loraCode
         else if trim currentValue \<noteq> [] then trim currentValue @ '' '' @ loraCode
         else loraCode)"

text \<open>
  \<^verbatim>\<open>updateNodeLoraCode(node, loraCode, mode)\<close>, lines 62 to 78. The value passed to the
  callback is read back from the widget; it is the value just assigned, since no handler
  writes the text widget.
\<close>

definition updateNodeLoraCode :: "Env \<Rightarrow> string \<Rightarrow> string \<Rightarrow> Node \<Rightarrow> Node" where
  "updateNodeLoraCode env loraCode md n =
     (case inputWidget n of
        None \<Rightarrow> n
      | Some w \<Rightarrow>
          let v = nextValue md (wvalue w) loraCode;
              n1 = setInputValue env w v n
          in (case callback w of
                None \<Rightarrow> n1
              | Some h \<Rightarrow> invokeInputCallback env h v n1))"

text \<open>
  A node id of the event is a number or a string; node ids are integers. \<open>None\<close> stands
  for \<^verbatim>\<open>undefined\<close>, \<^verbatim>\<open>null\<close> and \<^verbatim>\<open>NaN\<close>.
\<close>

datatype idval = IdNum int | IdStr string

record Message =
  node_id :: "idval option"
  msg_id :: "idval option"
  graph_id :: "string option"
  lora_code :: "string option"
  msg_mode :: "string option"

text \<open>
  The graph is the list of all its nodes (\<^verbatim>\<open>getAllGraphNodes(app.graph)\<close>); a node object is
  referred to by its position. The library as it behaves for the node at a position of a
  graph, the lookup \<^verbatim>\<open>getNodeFromGraph\<close> and the part of \<^verbatim>\<open>Number\<close> that is not written out
  below are parameters.
\<close>

record GraphEnv =
  envAt :: "Node list \<Rightarrow> nat \<Rightarrow> Env"
  getNodeFromGraph :: "Node list \<Rightarrow> string option \<Rightarrow> int option \<Rightarrow> nat option"
  numberOther :: "string \<Rightarrow> int option"

definition isDigit :: "char \<Rightarrow> bool" where
  "isDigit c = (48 \<le> (of_char c :: nat) \<and> (of_char c :: nat) \<le> 57)"

definition decimalInt :: "string \<Rightarrow> int option" where
  "decimalInt s =
     (if s \<noteq> [] \<and> length s \<le> 15 \<and> list_all isDigit s
      then Some (foldl (\<lambda>a c. 10 * a + (of_char c - 48)) 0 s)
      else None)"

text \<open>
  \<^verbatim>\<open>Number(s)\<close> on a string: a run of one to fifteen decimal digits, with or without a minus
  sign in front, is the integer it denotes (exactly, as a double). Every other string is
  left to the parameter.
\<close>

definition jsNumber :: "GraphEnv \<Rightarrow> string \<Rightarrow> int option" where
  "jsNumber genv s =
     (case s of
        [] \<Rightarrow> numberOther genv s
      | c # ds \<Rightarrow>
          if c = CHR ''-'' then
            (case decimalInt ds of Some k \<Rightarrow> Some (- k) | None \<Rightarrow> numberOther genv s)
          else
            (case decimalInt s of Some k \<Rightarrow> Some k | None \<Rightarrow> numberOther genv s))"

text \<open>
  Lines 31 and 35 of \<^verbatim>\<open>handleLoraCodeUpdate\<close>:
  \<^verbatim>\<open>nodeId = message?.node_id ?? message?.id\<close> and
  \<^verbatim>\<open>numericNodeId = typeof nodeId === "string" ? Number(nodeId) : nodeId\<close>.
\<close>

definition numericNodeId :: "GraphEnv \<Rightarrow> Message \<Rightarrow> int option" where
  "numericNodeId genv message =
     (let nodeId = (case node_id message of Some v \<Rightarrow> Some v | None \<Rightarrow> msg_id message)
      in case nodeId of
           None \<Rightarrow> None
         | Some (IdNum k) \<Rightarrow> Some k
         | Some (IdStr s) \<Rightarrow> jsNumber genv s)"

abbreviation loaderClass :: string where
  "loaderClass \<equiv> ''Lora Loader (Remote, LoraManager)''"

abbreviation stackerClass :: string where
  "stackerClass \<equiv> ''Lora Stacker (Remote, LoraManager)''"

abbreviation wanVideoClass :: string where
  "wanVideoClass \<equiv> ''WanVideo Lora Select (Remote, LoraManager)''"

text \<open>\<^verbatim>\<open>this.updateNodeLoraCode(node, loraCode, mode)\<close> on the node object at position \<open>i\<close>.\<close>

definition updateNodeAt :: "GraphEnv \<Rightarrow> string \<Rightarrow> string \<Rightarrow> nat \<Rightarrow> Node list \<Rightarrow> Node list" where
  "updateNodeAt genv loraCode md i g =
     g[i := updateNodeLoraCode (envAt genv g i) loraCode md (g ! i)]"

text \<open>
  The node object returned by \<^verbatim>\<open>getNodeFromGraph\<close>, as a position in the graph; a position
  outside the graph is no node.
\<close>

definition lookupNode :: "GraphEnv \<Rightarrow> Node list \<Rightarrow> string option \<Rightarrow> int option \<Rightarrow> nat option" where
  "lookupNode genv g graphId nid =
     (case getNodeFromGraph genv g graphId nid of
        None \<Rightarrow> None
      | Some i \<Rightarrow> if i < length g then Some i else None)"

text \<open>\<^verbatim>\<open>handleLoraCodeUpdate(message)\<close>, lines 30 to 60.\<close>

definition handleLoraCodeUpdate :: "GraphEnv \<Rightarrow> Message \<Rightarrow> Node list \<Rightarrow> Node list" where
  "handleLoraCodeUpdate genv message g =
     (let graphId = graph_id message;
          loraCode = (case lora_code message of Some c \<Rightarrow> c | None \<Rightarrow> []);
          md = (case msg_mode message of Some m \<Rightarrow> m | None \<Rightarrow> ''append'');
          nid = numericNodeId genv message
      in if nid = Some (- 1) then
           (let loraLoaderNodes = filter (\<lambda>i. comfyClass (g ! i) = loaderClass) [0..<length g]
            in if length loraLoaderNodes > 0
               then fold (updateNodeAt genv loraCode md) loraLoaderNodes g
               else g)
         else
           (case lookupNode genv g graphId nid of
              None \<Rightarrow> g
            | Some i \<Rightarrow>
                if comfyClass (g ! i) \<noteq> loaderClass \<and>
                   comfyClass (g ! i) \<noteq> stackerClass \<and>
                   comfyClass (g ! i) \<noteq> wanVideoClass
                then g
                else updateNodeAt genv loraCode md i g))"

section \<open>Entry merge and active names, from the specification\<close>

text \<open>
  Modelled from the spec: \<^verbatim>\<open>mergeLoras\<close> is imported from \<^verbatim>\<open>utils.js\<close> of the extension and
  is not part of this repository. Section 4.1 of the specification: union by name; an entry
  present in both lists keeps the current list's \<open>active\<close> flag and adopts the incoming
  strength; entries only in the incoming list are appended at the end with
  \<open>active = true\<close>; entries only in the current list are kept unchanged.
\<close>

definition mergeEntries :: "LoraEntry list \<Rightarrow> LoraEntry list \<Rightarrow> LoraEntry list" where
  "mergeEntries incomingEntries currentEntries =
     map (\<lambda>c. case find (\<lambda>i. name i = name c) incomingEntries of
                 None \<Rightarrow> c
               | Some i \<Rightarrow> c\<lparr>strength := strength i\<rparr>) currentEntries
     @ map (\<lambda>i. i\<lparr>active := True\<rparr>)
         (filter (\<lambda>i. name i \<notin> set (map name currentEntries)) incomingEntries)"

text \<open>
  Modelled from the spec: the function \<^verbatim>\<open>mergeLoras(text, current)\<close> of the extension takes
  the text; the specification's text handler decodes the text with the codec and merges the
  decoded entries with the current list. The decoder is a parameter.
\<close>

definition mergeLorasSpec ::
  "(string \<Rightarrow> LoraEntry list) \<Rightarrow> string \<Rightarrow> LoraEntry list \<Rightarrow> LoraEntry list" where
  "mergeLorasSpec decode text currentEntries = mergeEntries (decode text) currentEntries"

text \<open>
  Modelled from the spec: \<^verbatim>\<open>getActiveLorasFromNode\<close> is imported from \<^verbatim>\<open>utils.js\<close> of the
  extension. Section 4.2: every entry of the node with \<open>active = true\<close> contributes its name.
\<close>

definition getActiveLorasFromNodeSpec :: "Node \<Rightarrow> string set" where
  "getActiveLorasFromNodeSpec n =
     (case lorasValue n of None \<Rightarrow> {} | Some l \<Rightarrow> activeNames l)"

section \<open>The route table, from the specification\<close>

text \<open>
  Modelled from the spec: the reverse proxy (the Python middleware of this repository that
  holds the route table) is not among the source files. Sections 3 and 4.4: a rule is
  \<open>{ pathPattern, disposition, broadcastEvent? }\<close>; \<open>routeRequest\<close> is a linear scan of the
  ordered table, supporting static prefixes (a pattern ending in \<open>*\<close>) and exact matches;
  the first match wins; an unmatched path has no rule.
\<close>

datatype disposition = forward | localHandle

record RouteRule =
  pathPattern :: string
  disposition :: disposition
  broadcastEvent :: "string option"

definition matchesPattern :: "string \<Rightarrow> string \<Rightarrow> bool" where
  "matchesPattern pat path =
     (if pat \<noteq> [] \<and> last pat = CHR ''*'' then prefix (butlast pat) path else path = pat)"

definition routeRequest :: "RouteRule list \<Rightarrow> string \<Rightarrow> RouteRule option" where
  "routeRequest table path = find (\<lambda>r. matchesPattern (pathPattern r) path) table"

section \<open>Example values\<close>

text \<open>
  A decoder, a library, nodes, a graph and messages on which the statements below are
  evaluated.
\<close>

definition exDecode :: "string \<Rightarrow> LoraEntry list" where
  "exDecode t =
     (if t = ''<lora:bar:0.8>'' then [\<lparr>name = ''bar'', strength = 4 / 5, active = True\<rparr>]
      else [])"

definition exEnv :: Env where
  "exEnv =
     \<lparr>mergeLoras = mergeLorasSpec exDecode,
      applyLoraValuesToText = (\<lambda>t v. concat (map (\<lambda>e. ''<lora:'' @ name e @ ''>'') v)),
      collectActiveLorasFromChain = getActiveLorasFromNodeSpec,
      getActiveLorasFromNode = getActiveLorasFromNodeSpec,
      textNotifies = True,
      listNotifies = True\<rparr>"

definition exEntries :: "LoraEntry list" where
  "exEntries = [\<lparr>name = ''bar'', strength = 1, active = False\<rparr>]"

definition exLoader :: Node where
  "exLoader =
     \<lparr>comfyClass = loaderClass, mode = Some 0,
      inputWidget = Some \<lparr>wvalue = Some ''foo'', callback = Some LoaderCallback\<rparr>,
      lorasValue = Some exEntries,
      isUpdating = False, isSyncingInput = False, pending = None, effects = []\<rparr>"

definition exStacker :: Node where
  "exStacker =
     \<lparr>comfyClass = stackerClass, mode = Some 4,
      inputWidget = Some \<lparr>wvalue = Some ''foo'', callback = Some StackerCallback\<rparr>,
      lorasValue = Some [\<lparr>name = ''bar'', strength = 1, active = True\<rparr>],
      isUpdating = False, isSyncingInput = False, pending = None, effects = []\<rparr>"

definition exGraphEnv :: GraphEnv where
  "exGraphEnv =
     \<lparr>envAt = (\<lambda>g i. exEnv),
      getNodeFromGraph = (\<lambda>g graphId nid.
         case nid of None \<Rightarrow> None | Some k \<Rightarrow> if 0 \<le> k then Some (nat k) else None),
      numberOther = (\<lambda>s. None)\<rparr>"

definition exMessage :: "idval \<Rightarrow> Message" where
  "exMessage i =
     \<lparr>node_id = Some i, msg_id = None, graph_id = None,
      lora_code = Some ''<lora:bar:0.8>'', msg_mode = Some ''append''\<rparr>"

section \<open>Dropped calls\<close>

lemma invokeInputCallback_updating:
  "isUpdating n \<Longrightarrow> invokeInputCallback env h t n = n"
  by (cases h) (simp_all add: invokeInputCallback_def loader_inputCallback_def
      stacker_inputCallback_def wanvideo_inputCallback_def)

lemma invokeLorasCallback_updating:
  "isUpdating n \<Longrightarrow> invokeLorasCallback env h v n = n"
  by (cases h) (simp_all add: invokeLorasCallback_def loader_lorasCallback_def
      stacker_lorasCallback_def wanvideo_lorasCallback_def)

text \<open>
  C3. A call of the structured-list handler or of the text handler of any of the three
  shims, made while \<^verbatim>\<open>isUpdating\<close> is set, returns the node as it was: entry list, text
  widget, both flags, the pending debounced call and the log of collaborator calls are all
  unchanged, so the call is dropped and nothing is queued.
\<close>

theorem handlers_dropped_while_updating:
  assumes "isUpdating n"
  shows "invokeLorasCallback env h v n = n \<and> invokeInputCallback env h t n = n"
  using assms by (simp add: invokeLorasCallback_updating invokeInputCallback_updating)

theorem handlers_dropped_while_updating_witness:
  "isUpdating (exStacker\<lparr>isUpdating := True\<rparr>)
   \<and> invokeLorasCallback exEnv StackerCallback exEntries (exStacker\<lparr>isUpdating := True\<rparr>)
       = exStacker\<lparr>isUpdating := True\<rparr>
   \<and> invokeInputCallback exEnv StackerCallback ''<lora:bar:0.8>'' (exStacker\<lparr>isUpdating := True\<rparr>)
       = exStacker\<lparr>isUpdating := True\<rparr>"
  using handlers_dropped_while_updating
    [of "exStacker\<lparr>isUpdating := True\<rparr>" exEnv StackerCallback exEntries "''<lora:bar:0.8>''"]
  by simp

section \<open>The text handler\<close>

lemma loader_inputCallback_idle:
  assumes "\<not> isUpdating n"
  shows "loader_inputCallback env t n =
    (let merged = mergeLoras env t (case lorasValue n of None \<Rightarrow> [] | Some l \<Rightarrow> l)
     in n\<lparr>lorasValue := Some merged,
          effects := effects n @ [TriggerWords (collectActiveLorasFromChain env
             (n\<lparr>isUpdating := True, lorasValue := Some merged\<rparr>))]\<rparr>)"
  using assms
  by (intro Node.equality) (simp_all add: loader_inputCallback_def setLorasValue_def loader_lorasCallback_def
      updateConnectedTriggerWords_def Let_def)

lemma stacker_inputCallback_idle:
  assumes "\<not> isUpdating n"
  shows "stacker_inputCallback env t n =
    (let merged = mergeLoras env t (case lorasValue n of None \<Rightarrow> [] | Some l \<Rightarrow> l);
         m = n\<lparr>isUpdating := True, lorasValue := Some merged\<rparr>
     in n\<lparr>lorasValue := Some merged,
          effects := effects n @ [TriggerWords (if isNodeActive n then getActiveLorasFromNode env m else {}),
             DownstreamLoaders]\<rparr>)"
  using assms
  by (intro Node.equality) (auto simp add: stacker_inputCallback_def setLorasValue_def stacker_lorasCallback_def
      updateConnectedTriggerWords_def updateDownstreamLoaders_def isNodeActive_def Let_def)

lemma wanvideo_inputCallback_idle:
  assumes "\<not> isUpdating n"
  shows "wanvideo_inputCallback env t n =
    (let merged = mergeLoras env t (case lorasValue n of None \<Rightarrow> [] | Some l \<Rightarrow> l);
         m = n\<lparr>isUpdating := True, lorasValue := Some merged\<rparr>
     in n\<lparr>lorasValue := Some merged,
          effects := effects n @ [TriggerWords (getActiveLorasFromNode env m)]\<rparr>)"
  using assms
  by (intro Node.equality) (simp_all add: wanvideo_inputCallback_def setLorasValue_def wanvideo_lorasCallback_def
      updateConnectedTriggerWords_def Let_def)

lemma invokeInputCallback_idle:
  assumes "\<not> isUpdating n"
  shows "invokeInputCallback env h t n =
    (let merged = mergeLoras env t (case lorasValue n of None \<Rightarrow> [] | Some l \<Rightarrow> l);
         m = n\<lparr>isUpdating := True, lorasValue := Some merged\<rparr>
     in n\<lparr>lorasValue := Some merged,
          effects := effects n @
            (case h of
               LoaderCallback \<Rightarrow> [TriggerWords (collectActiveLorasFromChain env m)]
             | StackerCallback \<Rightarrow>
                 [TriggerWords (if isNodeActive n then getActiveLorasFromNode env m else {}),
                  DownstreamLoaders]
             | WanVideoCallback \<Rightarrow> [TriggerWords (getActiveLorasFromNode env m)])\<rparr>)"
  using assms
  by (cases h) (simp_all add: invokeInputCallback_def loader_inputCallback_idle
      stacker_inputCallback_idle wanvideo_inputCallback_idle Let_def)

lemma invokeInputCallback_inputWidget:
  "inputWidget (invokeInputCallback env h t n) = inputWidget n"
proof (cases "isUpdating n")
  case True
  then show ?thesis by (simp add: invokeInputCallback_updating)
next
  case False
  then show ?thesis
    by (cases h) (simp_all add: invokeInputCallback_def loader_inputCallback_idle
        stacker_inputCallback_idle wanvideo_inputCallback_idle Let_def)
qed

lemma mergeEntries_nth:
  assumes "k < length current"
  shows "mergeEntries incoming current ! k =
     (case find (\<lambda>i. name i = name (current ! k)) incoming of
        None \<Rightarrow> current ! k
      | Some i \<Rightarrow> (current ! k)\<lparr>strength := strength i\<rparr>)"
  using assms by (simp add: mergeEntries_def nth_append)

text \<open>
  C1. When the text handler of a remote lora node is called while \<^verbatim>\<open>isUpdating\<close> is clear,
  with \<^verbatim>\<open>mergeLoras\<close> as the specification describes it (decode, then merge), the node's
  entry list becomes the merge of the decoded text with the current list. At every
  position of the current list the merged entry keeps the name and the \<open>active\<close> flag of
  the current entry, and takes the strength of the incoming entry of that name when there
  is one. The active names are then computed from the node holding the merged list and
  handed to \<^verbatim>\<open>updateConnectedTriggerWords\<close> (the stacker also calls
  \<^verbatim>\<open>updateDownstreamLoaders\<close>); the flag is clear again on return, and neither the text
  widget nor the pending rewrite is touched. This holds whether or not the host notifies
  the structured widget's callback on assignment.
\<close>

theorem text_change_merges_into_entry_list:
  assumes "\<not> isUpdating n"
  shows "let env = lib\<lparr>mergeLoras := mergeLorasSpec decode\<rparr>;
             current = (case lorasValue n of None \<Rightarrow> [] | Some l \<Rightarrow> l);
             merged = mergeEntries (decode t) current;
             m = n\<lparr>isUpdating := True, lorasValue := Some merged\<rparr>;
             n' = invokeInputCallback env h t n
         in lorasValue n' = Some merged
          \<and> (\<forall>k<length current.
                name (merged ! k) = name (current ! k) \<and>
                active (merged ! k) = active (current ! k) \<and>
                (\<forall>i. find (\<lambda>i. name i = name (current ! k)) (decode t) = Some i
                     \<longrightarrow> strength (merged ! k) = strength i))
          \<and> effects n' = effects n @
               (case h of
                  LoaderCallback \<Rightarrow> [TriggerWords (collectActiveLorasFromChain env m)]
                | StackerCallback \<Rightarrow>
                    [TriggerWords (if isNodeActive n then getActiveLorasFromNode env m else {}),
                     DownstreamLoaders]
                | WanVideoCallback \<Rightarrow> [TriggerWords (getActiveLorasFromNode env m)])
          \<and> \<not> isUpdating n' \<and> inputWidget n' = inputWidget n \<and> pending n' = pending n"
proof -
  let ?env = "lib\<lparr>mergeLoras := mergeLorasSpec decode\<rparr>"
  let ?current = "case lorasValue n of None \<Rightarrow> [] | Some l \<Rightarrow> l"
  let ?merged = "mergeEntries (decode t) ?current"
  have m: "mergeLoras ?env t ?current = ?merged"
    by (simp add: mergeLorasSpec_def)
  have nth: "\<forall>k<length ?current.
                name (?merged ! k) = name (?current ! k) \<and>
                active (?merged ! k) = active (?current ! k) \<and>
                (\<forall>i. find (\<lambda>i. name i = name (?current ! k)) (decode t) = Some i
                     \<longrightarrow> strength (?merged ! k) = strength i)"
    by (simp add: mergeEntries_nth split: option.splits)
  show ?thesis
    unfolding Let_def
    using assms nth m by (simp add: invokeInputCallback_idle Let_def)
qed

theorem text_change_merges_into_entry_list_witness:
  "\<not> isUpdating exLoader
   \<and> lorasValue (invokeInputCallback exEnv LoaderCallback ''<lora:bar:0.8>'' exLoader)
       = Some [\<lparr>name = ''bar'', strength = 4 / 5, active = False\<rparr>]
   \<and> effects (invokeInputCallback exEnv LoaderCallback ''<lora:bar:0.8>'' exLoader)
       = [TriggerWords {}]"
proof -
  have idle: "\<not> isUpdating exLoader" by (simp add: exLoader_def)
  have env: "exEnv\<lparr>mergeLoras := mergeLorasSpec exDecode\<rparr> = exEnv"
    by (simp add: exEnv_def)
  show ?thesis
    using idle text_change_merges_into_entry_list
      [OF idle, where lib = exEnv and decode = exDecode and t = "''<lora:bar:0.8>''"
         and h = LoaderCallback]
    unfolding env
    by (simp add: Let_def exLoader_def exEntries_def exDecode_def mergeEntries_def
        exEnv_def getActiveLorasFromNodeSpec_def activeNames_def)
qed

section \<open>The debounced text rewrite\<close>

lemma setInputValue_updating:
  "isUpdating n \<Longrightarrow> setInputValue env w v n =
     n\<lparr>inputWidget := Some (w\<lparr>wvalue := Some v\<rparr>), effects := effects n @ [TextWrite v]\<rparr>"
  by (simp add: setInputValue_def invokeInputCallback_updating Let_def split: option.splits)

lemma setInputValue_inputWidget:
  "inputWidget (setInputValue env w v n) = Some (w\<lparr>wvalue := Some v\<rparr>)"
  by (simp add: setInputValue_def invokeInputCallback_inputWidget Let_def split: option.splits)

lemma invokeLorasCallback_fields:
  "inputWidget (invokeLorasCallback env h v n) = inputWidget n \<and>
   lorasValue (invokeLorasCallback env h v n) = lorasValue n \<and>
   isSyncingInput (invokeLorasCallback env h v n) = isSyncingInput n \<and>
   isUpdating (invokeLorasCallback env h v n) = isUpdating n \<and>
   filter isTextWrite (effects (invokeLorasCallback env h v n)) = filter isTextWrite (effects n)"
  by (cases h)
     (simp_all add: invokeLorasCallback_def loader_lorasCallback_def stacker_lorasCallback_def
        wanvideo_lorasCallback_def scheduleInputSync_def updateConnectedTriggerWords_def
        updateDownstreamLoaders_def isTextWrite_def Let_def)

lemma inputSync_frame:
  "length (filter isTextWrite (effects (inputSync env v n))) \<le> length (filter isTextWrite (effects n)) + 1 \<and>
   filter (\<lambda>e. \<not> isTextWrite e) (effects (inputSync env v n)) = filter (\<lambda>e. \<not> isTextWrite e) (effects n) \<and>
   lorasValue (inputSync env v n) = lorasValue n \<and>
   pending (inputSync env v n) = pending n"
  by (cases "inputWidget n")
     (simp_all add: inputSync_def setInputValue_updating Let_def isTextWrite_def)

lemma inputSync_host_independent:
  "inputSync env v n = inputSync (env\<lparr>textNotifies := b\<rparr>) v n"
  by (cases "inputWidget n") (simp_all add: inputSync_def setInputValue_updating Let_def)

lemma fireInputSync_write_state:
  assumes "pending n = Some p" and "inputWidget n = Some w" and "\<not> isSyncingInput n"
    and "wvalue w \<noteq> Some (applyLoraValuesToText env (wvalue w) p)"
  shows "fireInputSync env n =
     (setInputValue env w (applyLoraValuesToText env (wvalue w) p)
        (n\<lparr>pending := None, isSyncingInput := True, isUpdating := True\<rparr>))
     \<lparr>isUpdating := False, isSyncingInput := False\<rparr>"
  using assms by (simp add: fireInputSync_def inputSync_def Let_def)

text \<open>
  C2. After a structured-list change, the debounced rewrite that fires next assigns the
  text widget at most once. When it assigns, the assignment is made on the node with both
  flags set, and in that state every call of a text handler or of a structured-list
  handler returns the node unchanged, so a notification sent by the assignment cannot
  re-enter them. Accordingly the rewrite leaves the entry list and the log of collaborator
  calls as they were, leaves no rewrite pending, and its result does not depend on whether
  the host notifies the text widget's callback on assignment.
\<close>

theorem list_change_rewrites_text_at_most_once:
  "let n1 = invokeLorasCallback env h v n;
       n2 = fireInputSync env n1;
       m = n1\<lparr>pending := None, isSyncingInput := True, isUpdating := True\<rparr>
   in length (filter isTextWrite (effects n2)) \<le> length (filter isTextWrite (effects n)) + 1
    \<and> (\<forall>p w. pending n1 = Some p \<and> inputWidget n1 = Some w \<and> \<not> isSyncingInput n1
            \<and> wvalue w \<noteq> Some (applyLoraValuesToText env (wvalue w) p) \<longrightarrow>
          n2 = (setInputValue env w (applyLoraValuesToText env (wvalue w) p) m)
                 \<lparr>isUpdating := False, isSyncingInput := False\<rparr>)
    \<and> (\<forall>t. invokeInputCallback env h t m = m)
    \<and> (\<forall>l. invokeLorasCallback env h l m = m)
    \<and> filter (\<lambda>e. \<not> isTextWrite e) (effects n2) = filter (\<lambda>e. \<not> isTextWrite e) (effects n1)
    \<and> lorasValue n2 = lorasValue n
    \<and> pending n2 = None
    \<and> n2 = fireInputSync (env\<lparr>textNotifies := False\<rparr>) n1"
proof -
  let ?n1 = "invokeLorasCallback env h v n"
  let ?m = "?n1\<lparr>pending := None, isSyncingInput := True, isUpdating := True\<rparr>"
  have f: "filter isTextWrite (effects ?n1) = filter isTextWrite (effects n)"
       "lorasValue ?n1 = lorasValue n"
    using invokeLorasCallback_fields [of env h v n] by simp_all
  have during: "\<forall>p w. pending ?n1 = Some p \<and> inputWidget ?n1 = Some w \<and> \<not> isSyncingInput ?n1
            \<and> wvalue w \<noteq> Some (applyLoraValuesToText env (wvalue w) p) \<longrightarrow>
          fireInputSync env ?n1 = (setInputValue env w (applyLoraValuesToText env (wvalue w) p) ?m)
                 \<lparr>isUpdating := False, isSyncingInput := False\<rparr>"
    by (intro allI impI) (rule fireInputSync_write_state, simp_all)
  have dropped: "(\<forall>t. invokeInputCallback env h t ?m = ?m)
                 \<and> (\<forall>l. invokeLorasCallback env h l ?m = ?m)"
    by (simp add: invokeInputCallback_updating invokeLorasCallback_updating)
  have rest: "length (filter isTextWrite (effects (fireInputSync env ?n1)))
                \<le> length (filter isTextWrite (effects n)) + 1
    \<and> filter (\<lambda>e. \<not> isTextWrite e) (effects (fireInputSync env ?n1))
        = filter (\<lambda>e. \<not> isTextWrite e) (effects ?n1)
    \<and> lorasValue (fireInputSync env ?n1) = lorasValue n
    \<and> pending (fireInputSync env ?n1) = None
    \<and> fireInputSync env ?n1 = fireInputSync (env\<lparr>textNotifies := False\<rparr>) ?n1"
  proof (cases "pending ?n1")
    case None
    then show ?thesis
      using f by (simp add: fireInputSync_def)
  next
    case (Some p)
    have fr: "length (filter isTextWrite (effects (inputSync env p (?n1\<lparr>pending := None\<rparr>))))
                \<le> length (filter isTextWrite (effects (?n1\<lparr>pending := None\<rparr>))) + 1"
         "filter (\<lambda>e. \<not> isTextWrite e) (effects (inputSync env p (?n1\<lparr>pending := None\<rparr>)))
            = filter (\<lambda>e. \<not> isTextWrite e) (effects (?n1\<lparr>pending := None\<rparr>))"
         "lorasValue (inputSync env p (?n1\<lparr>pending := None\<rparr>)) = lorasValue (?n1\<lparr>pending := None\<rparr>)"
         "pending (inputSync env p (?n1\<lparr>pending := None\<rparr>)) = pending (?n1\<lparr>pending := None\<rparr>)"
      using inputSync_frame [of env p "?n1\<lparr>pending := None\<rparr>"] by simp_all
    have hi: "inputSync env p (?n1\<lparr>pending := None\<rparr>)
                = inputSync (env\<lparr>textNotifies := False\<rparr>) p (?n1\<lparr>pending := None\<rparr>)"
      by (rule inputSync_host_independent)
    show ?thesis
      using Some f fr hi by (simp add: fireInputSync_def)
  qed
  show ?thesis
    unfolding Let_def
    using during dropped rest by (intro conjI) blast+
qed

theorem list_change_rewrites_text_at_most_once_witness:
  "effects (fireInputSync exEnv (invokeLorasCallback exEnv LoaderCallback exEntries exLoader))
     = [TriggerWords {}, TextWrite ''<lora:bar>'']
   \<and> pending (fireInputSync exEnv (invokeLorasCallback exEnv LoaderCallback exEntries exLoader))
     = None
   \<and> fireInputSync exEnv (invokeLorasCallback exEnv LoaderCallback exEntries exLoader)
     = fireInputSync (exEnv\<lparr>textNotifies := False\<rparr>)
         (invokeLorasCallback exEnv LoaderCallback exEntries exLoader)"
  using list_change_rewrites_text_at_most_once [of exEnv LoaderCallback exEntries exLoader]
  by (simp add: Let_def exLoader_def exEntries_def exEnv_def invokeLorasCallback_def
      loader_lorasCallback_def updateConnectedTriggerWords_def scheduleInputSync_def
      fireInputSync_def inputSync_def setInputValue_def getActiveLorasFromNodeSpec_def
      activeNames_def)

text \<open>
  C6. When the debounce timer fires on a node with a text widget: if \<^verbatim>\<open>isSyncingInput\<close> is
  set, nothing but the timer changes. Otherwise \<^verbatim>\<open>applyLoraValuesToText\<close> is applied to the
  widget's text and the scheduled entries; if the result equals the widget's text, the text
  widget is not assigned (no assignment is logged, so the host is not notified), and if it
  differs the widget is assigned the result exactly once. Both flags are clear afterwards.
\<close>

theorem debounced_rewrite_writes_only_on_difference:
  assumes "pending n = Some v" and "inputWidget n = Some w"
  shows "let nextText = applyLoraValuesToText env (wvalue w) v;
             n' = fireInputSync env n
         in (isSyncingInput n \<longrightarrow> n' = n\<lparr>pending := None\<rparr>)
          \<and> (\<not> isSyncingInput n \<and> wvalue w = Some nextText \<longrightarrow>
                n' = n\<lparr>pending := None, isUpdating := False\<rparr>)
          \<and> (\<not> isSyncingInput n \<and> wvalue w \<noteq> Some nextText \<longrightarrow>
                n' = n\<lparr>pending := None,
                       inputWidget := Some (w\<lparr>wvalue := Some nextText\<rparr>),
                       effects := effects n @ [TextWrite nextText],
                       isUpdating := False\<rparr>)"
  using assms
  unfolding Let_def
  by (intro conjI impI Node.equality)
     (simp_all add: fireInputSync_def inputSync_def setInputValue_updating Let_def)

theorem debounced_rewrite_writes_only_on_difference_witness:
  "pending (exLoader\<lparr>pending := Some exEntries\<rparr>) = Some exEntries
   \<and> fireInputSync exEnv (exLoader\<lparr>pending := Some exEntries\<rparr>)
       = exLoader\<lparr>inputWidget := Some \<lparr>wvalue = Some ''<lora:bar>'', callback = Some LoaderCallback\<rparr>,
                  effects := [TextWrite ''<lora:bar>'']\<rparr>
   \<and> fireInputSync exEnv (exLoader\<lparr>pending := Some [], inputWidget :=
         Some \<lparr>wvalue = Some [], callback = Some LoaderCallback\<rparr>\<rparr>)
       = exLoader\<lparr>inputWidget := Some \<lparr>wvalue = Some [], callback = Some LoaderCallback\<rparr>\<rparr>
   \<and> fireInputSync exEnv (exLoader\<lparr>pending := Some exEntries, isSyncingInput := True\<rparr>)
       = exLoader\<lparr>isSyncingInput := True\<rparr>"
proof -
  let ?w = "\<lparr>wvalue = Some ''foo'', callback = Some LoaderCallback\<rparr>"
  let ?blank = "\<lparr>wvalue = Some [], callback = Some LoaderCallback\<rparr>"
  have p: "pending (exLoader\<lparr>pending := Some exEntries\<rparr>) = Some exEntries" by simp
  have w: "inputWidget (exLoader\<lparr>pending := Some exEntries\<rparr>) = Some ?w"
    by (simp add: exLoader_def)
  have pb: "pending (exLoader\<lparr>pending := Some [], inputWidget := Some ?blank\<rparr>) = Some []" by simp
  have wb: "inputWidget (exLoader\<lparr>pending := Some [], inputWidget := Some ?blank\<rparr>) = Some ?blank"
    by simp
  have ps: "pending (exLoader\<lparr>pending := Some exEntries, isSyncingInput := True\<rparr>) = Some exEntries"
    by simp
  have ws: "inputWidget (exLoader\<lparr>pending := Some exEntries, isSyncingInput := True\<rparr>) = Some ?w"
    by (simp add: exLoader_def)
  have differs: "fireInputSync exEnv (exLoader\<lparr>pending := Some exEntries\<rparr>)
       = exLoader\<lparr>inputWidget := Some \<lparr>wvalue = Some ''<lora:bar>'', callback = Some LoaderCallback\<rparr>,
                  effects := [TextWrite ''<lora:bar>'']\<rparr>"
    using debounced_rewrite_writes_only_on_difference [OF p w, of exEnv]
    by (simp add: Let_def exLoader_def exEntries_def exEnv_def)
  have equal: "fireInputSync exEnv (exLoader\<lparr>pending := Some [], inputWidget := Some ?blank\<rparr>)
       = exLoader\<lparr>inputWidget := Some ?blank\<rparr>"
    using debounced_rewrite_writes_only_on_difference [OF pb wb, of exEnv]
    by (simp add: Let_def exLoader_def exEnv_def)
  have skipped: "fireInputSync exEnv (exLoader\<lparr>pending := Some exEntries, isSyncingInput := True\<rparr>)
       = exLoader\<lparr>isSyncingInput := True\<rparr>"
    using debounced_rewrite_writes_only_on_difference [OF ps ws, of exEnv]
    by (simp add: Let_def exLoader_def)
  from p differs equal skipped show ?thesis by (intro conjI)
qed

section \<open>The lora-code update on one node\<close>

lemma trim_Nil_iff: "trim s = [] \<longleftrightarrow> list_all isWhiteSpace s"
proof -
  have "trim s = [] \<longleftrightarrow> (\<forall>x\<in>set (dropWhile isWhiteSpace s). isWhiteSpace x)"
    by (simp add: trim_def dropWhile_eq_Nil_conv)
  also have "\<dots> \<longleftrightarrow> dropWhile isWhiteSpace s = []"
  proof
    assume a: "\<forall>x\<in>set (dropWhile isWhiteSpace s). isWhiteSpace x"
    show "dropWhile isWhiteSpace s = []"
    proof (rule ccontr)
      assume ne: "dropWhile isWhiteSpace s \<noteq> []"
      then have "\<not> isWhiteSpace (hd (dropWhile isWhiteSpace s))" by (rule hd_dropWhile)
      moreover from ne have "hd (dropWhile isWhiteSpace s) \<in> set (dropWhile isWhiteSpace s)"
        by simp
      ultimately show False using a by blast
    qed
  next
    assume "dropWhile isWhiteSpace s = []"
    then show "\<forall>x\<in>set (dropWhile isWhiteSpace s). isWhiteSpace x"
      by (simp only: set_simps ball_empty)
  qed
  also have "\<dots> \<longleftrightarrow> list_all isWhiteSpace s"
    by (simp add: dropWhile_eq_Nil_conv list_all_iff)
  finally show ?thesis .
qed

lemma trim_decomposition:
  "s = takeWhile isWhiteSpace s @ trim s @ rev (takeWhile isWhiteSpace (rev (dropWhile isWhiteSpace s)))"
proof -
  let ?d = "dropWhile isWhiteSpace s"
  have "?d = rev (takeWhile isWhiteSpace (rev ?d) @ dropWhile isWhiteSpace (rev ?d))"
    by (simp only: takeWhile_dropWhile_id rev_rev_ident)
  also have "\<dots> = trim s @ rev (takeWhile isWhiteSpace (rev ?d))"
    by (simp only: rev_append trim_def)
  finally have "?d = trim s @ rev (takeWhile isWhiteSpace (rev ?d))" .
  moreover have "s = takeWhile isWhiteSpace s @ ?d"
    by (simp only: takeWhile_dropWhile_id)
  ultimately show ?thesis by metis
qed

lemma trim_ends:
  assumes "trim s \<noteq> []"
  shows "\<not> isWhiteSpace (hd (trim s)) \<and> \<not> isWhiteSpace (last (trim s))"
proof -
  let ?d = "dropWhile isWhiteSpace s"
  let ?e = "dropWhile isWhiteSpace (rev ?d)"
  from assms have e: "?e \<noteq> []" by (simp add: trim_def)
  then have d: "?d \<noteq> []" by (metis dropWhile.simps(1) rev.simps(1))
  have "last (trim s) = hd ?e" using e by (simp add: trim_def last_rev)
  moreover have "\<not> isWhiteSpace (hd ?e)" using e by (rule hd_dropWhile)
  moreover have "hd (trim s) = last ?e" using e by (simp add: trim_def hd_rev)
  moreover have "last ?e = last (rev ?d)"
  proof -
    have "last (takeWhile isWhiteSpace (rev ?d) @ ?e) = last ?e"
      using e by (rule last_appendR)
    then show ?thesis by (simp only: takeWhile_dropWhile_id)
  qed
  moreover have "last (rev ?d) = hd ?d" using d by (simp add: last_rev)
  moreover have "\<not> isWhiteSpace (hd ?d)" using d by (rule hd_dropWhile)
  ultimately show ?thesis by simp
qed

lemma updateNodeLoraCode_inputWidget:
  assumes "inputWidget n = Some w"
  shows "inputWidget (updateNodeLoraCode env loraCode md n)
           = Some (w\<lparr>wvalue := Some (nextValue md (wvalue w) loraCode)\<rparr>)"
  using assms
  by (simp add: updateNodeLoraCode_def Let_def invokeInputCallback_inputWidget
      setInputValue_inputWidget split: option.splits)

text \<open>
  C4. On a node whose text widget holds \<open>foo\<close>, \<^verbatim>\<open>updateNodeLoraCode\<close> with payload
  \<open><lora:bar:0.8>\<close> leaves the widget holding \<open>foo <lora:bar:0.8>\<close> in mode \<open>append\<close> (one
  space between the two) and exactly \<open><lora:bar:0.8>\<close> in mode \<open>replace\<close>, whatever the
  node's callback, flags and library are.
\<close>

theorem append_and_replace_example:
  "inputWidget (updateNodeLoraCode env ''<lora:bar:0.8>'' ''append''
       (n\<lparr>inputWidget := Some (w\<lparr>wvalue := Some ''foo''\<rparr>)\<rparr>))
     = Some (w\<lparr>wvalue := Some ''foo <lora:bar:0.8>''\<rparr>)
   \<and> inputWidget (updateNodeLoraCode env ''<lora:bar:0.8>'' ''replace''
       (n\<lparr>inputWidget := Some (w\<lparr>wvalue := Some ''foo''\<rparr>)\<rparr>))
     = Some (w\<lparr>wvalue := Some ''<lora:bar:0.8>''\<rparr>)"
  by (simp add: updateNodeLoraCode_inputWidget nextValue_def trim_def isWhiteSpace_def)

text \<open>
  C9. \<^verbatim>\<open>updateNodeLoraCode\<close> on a node with a text widget, in any mode other than \<open>replace\<close>:
  when the widget's text is empty or only white space, the text assigned is exactly the
  payload; otherwise it is the trimmed text, one space and the payload, where the trimmed
  text is the current text without a white-space prefix and a white-space suffix and neither
  begins nor ends with white space. In every mode the widget holds the assigned text
  afterwards, and when the widget has a callback the result is that of calling the
  callback with the assigned text on the node after the assignment.
\<close>

theorem append_trims_and_invokes_callback:
  assumes "inputWidget n = Some w"
  shows "let currentValue = (case wvalue w of None \<Rightarrow> [] | Some s \<Rightarrow> s);
             v = nextValue md (wvalue w) loraCode;
             n' = updateNodeLoraCode env loraCode md n
         in (md \<noteq> ''replace'' \<and> list_all isWhiteSpace currentValue \<longrightarrow>
               v = loraCode)
          \<and> (md \<noteq> ''replace'' \<and> \<not> list_all isWhiteSpace currentValue \<longrightarrow>
               v = trim currentValue @ '' '' @ loraCode
               \<and> \<not> isWhiteSpace (hd (trim currentValue))
               \<and> \<not> isWhiteSpace (last (trim currentValue))
               \<and> (\<exists>pre post. currentValue = pre @ trim currentValue @ post
                     \<and> list_all isWhiteSpace pre \<and> list_all isWhiteSpace post))
          \<and> inputWidget n' = Some (w\<lparr>wvalue := Some v\<rparr>)
          \<and> (\<forall>h. callback w = Some h \<longrightarrow>
                n' = invokeInputCallback env h v (setInputValue env w v n))
          \<and> (callback w = None \<longrightarrow> n' = setInputValue env w v n)"
proof -
  let ?cur = "case wvalue w of None \<Rightarrow> [] | Some s \<Rightarrow> s"
  have dec: "\<exists>pre post. ?cur = pre @ trim ?cur @ post
                     \<and> list_all isWhiteSpace pre \<and> list_all isWhiteSpace post"
  proof (intro exI conjI)
    show "?cur = takeWhile isWhiteSpace ?cur @ trim ?cur
                  @ rev (takeWhile isWhiteSpace (rev (dropWhile isWhiteSpace ?cur)))"
      by (rule trim_decomposition)
    show "list_all isWhiteSpace (takeWhile isWhiteSpace ?cur)"
      by (simp add: list_all_iff) (meson set_takeWhileD)
    show "list_all isWhiteSpace (rev (takeWhile isWhiteSpace (rev (dropWhile isWhiteSpace ?cur))))"
      by (simp add: list_all_iff) (meson set_takeWhileD)
  qed
  have blank: "md \<noteq> ''replace'' \<Longrightarrow> list_all isWhiteSpace ?cur
                 \<Longrightarrow> nextValue md (wvalue w) loraCode = loraCode"
    using trim_Nil_iff [of ?cur] by (simp add: nextValue_def)
  have nonblank: "md \<noteq> ''replace'' \<Longrightarrow> \<not> list_all isWhiteSpace ?cur
                 \<Longrightarrow> nextValue md (wvalue w) loraCode = trim ?cur @ '' '' @ loraCode"
    using trim_Nil_iff [of ?cur] by (simp add: nextValue_def)
  have ends: "\<not> list_all isWhiteSpace ?cur \<Longrightarrow>
               \<not> isWhiteSpace (hd (trim ?cur)) \<and> \<not> isWhiteSpace (last (trim ?cur))"
    using trim_Nil_iff [of ?cur] trim_ends [of ?cur] by simp
  have cb: "\<forall>h. callback w = Some h \<longrightarrow>
              updateNodeLoraCode env loraCode md n
                = invokeInputCallback env h (nextValue md (wvalue w) loraCode)
                    (setInputValue env w (nextValue md (wvalue w) loraCode) n)"
    using assms by (simp add: updateNodeLoraCode_def Let_def)
  have nocb: "callback w = None \<longrightarrow>
              updateNodeLoraCode env loraCode md n
                = setInputValue env w (nextValue md (wvalue w) loraCode) n"
    using assms by (simp add: updateNodeLoraCode_def Let_def)
  show ?thesis
    unfolding Let_def
    using blank nonblank ends dec cb nocb updateNodeLoraCode_inputWidget [OF assms, of env loraCode md]
    by blast
qed

theorem append_trims_and_invokes_callback_witness:
  "inputWidget (exLoader\<lparr>inputWidget := Some \<lparr>wvalue = Some '' foo  '', callback = Some LoaderCallback\<rparr>\<rparr>)
     = Some \<lparr>wvalue = Some '' foo  '', callback = Some LoaderCallback\<rparr>
   \<and> inputWidget (updateNodeLoraCode exEnv ''<lora:bar:0.8>'' ''append''
        (exLoader\<lparr>inputWidget := Some \<lparr>wvalue = Some '' foo  '', callback = Some LoaderCallback\<rparr>\<rparr>))
     = Some \<lparr>wvalue = Some ''foo <lora:bar:0.8>'', callback = Some LoaderCallback\<rparr>
   \<and> inputWidget (updateNodeLoraCode exEnv ''<lora:bar:0.8>'' ''append''
        (exLoader\<lparr>inputWidget := Some \<lparr>wvalue = Some ''  '', callback = None\<rparr>\<rparr>))
     = Some \<lparr>wvalue = Some ''<lora:bar:0.8>'', callback = None\<rparr>"
proof -
  let ?w = "\<lparr>wvalue = Some '' foo  '', callback = Some LoaderCallback\<rparr>"
  let ?blank = "\<lparr>wvalue = Some ''  '', callback = None\<rparr>"
  have w: "inputWidget (exLoader\<lparr>inputWidget := Some ?w\<rparr>) = Some ?w" by simp
  have wb: "inputWidget (exLoader\<lparr>inputWidget := Some ?blank\<rparr>) = Some ?blank" by simp
  have trimmed: "inputWidget (updateNodeLoraCode exEnv ''<lora:bar:0.8>'' ''append''
        (exLoader\<lparr>inputWidget := Some ?w\<rparr>))
     = Some \<lparr>wvalue = Some ''foo <lora:bar:0.8>'', callback = Some LoaderCallback\<rparr>"
    using append_trims_and_invokes_callback
      [OF w, of "''append''" "''<lora:bar:0.8>''" exEnv, unfolded Let_def,
       THEN conjunct2, THEN conjunct2, THEN conjunct1]
    by (simp add: nextValue_def trim_def isWhiteSpace_def)
  have blank: "inputWidget (updateNodeLoraCode exEnv ''<lora:bar:0.8>'' ''append''
        (exLoader\<lparr>inputWidget := Some ?blank\<rparr>))
     = Some \<lparr>wvalue = Some ''<lora:bar:0.8>'', callback = None\<rparr>"
    using append_trims_and_invokes_callback
      [OF wb, of "''append''" "''<lora:bar:0.8>''" exEnv, unfolded Let_def,
       THEN conjunct2, THEN conjunct2, THEN conjunct1]
    by (simp add: nextValue_def trim_def isWhiteSpace_def)
  from w trimmed blank show ?thesis by (intro conjI)
qed

section \<open>The lora-code update event on the graph\<close>

lemma updateNodeLoraCode_no_widget:
  "inputWidget n = None \<Longrightarrow> updateNodeLoraCode env loraCode md n = n"
  by (simp add: updateNodeLoraCode_def)

lemma fold_updateNodeAt:
  assumes "distinct js" and "\<forall>i\<in>set js. i < length g"
  shows "length (fold (updateNodeAt genv c md) js g) = length g
       \<and> (\<forall>j. j \<notin> set js \<longrightarrow> fold (updateNodeAt genv c md) js g ! j = g ! j)
       \<and> (\<forall>j\<in>set js. \<exists>gj. length gj = length g \<and> gj ! j = g ! j
              \<and> (\<forall>k. k \<notin> set js \<longrightarrow> gj ! k = g ! k)
              \<and> fold (updateNodeAt genv c md) js g ! j
                   = updateNodeLoraCode (envAt genv gj j) c md (g ! j))"
  using assms
proof (induction js arbitrary: g)
  case Nil
  then show ?case by simp
next
  case (Cons i rest)
  let ?g1 = "updateNodeAt genv c md i g"
  let ?r = "fold (updateNodeAt genv c md) rest ?g1"
  have len1: "length ?g1 = length g" by (simp add: updateNodeAt_def)
  have i_lt: "i < length g" using Cons.prems by simp
  have i_notin: "i \<notin> set rest" and d: "distinct rest" using Cons.prems by simp_all
  have bound: "\<forall>k\<in>set rest. k < length ?g1" using Cons.prems len1 by simp
  note IH = Cons.IH [OF d bound]
  have other: "\<And>k. k \<noteq> i \<Longrightarrow> ?g1 ! k = g ! k" by (simp add: updateNodeAt_def)
  have at_i: "?g1 ! i = updateNodeLoraCode (envAt genv g i) c md (g ! i)"
    using i_lt by (simp add: updateNodeAt_def)
  have A: "length ?r = length g" using IH len1 by simp
  have B: "\<forall>j. j \<notin> set (i # rest) \<longrightarrow> ?r ! j = g ! j"
    using IH other by auto
  have C: "\<forall>j\<in>set (i # rest). \<exists>gj. length gj = length g \<and> gj ! j = g ! j
              \<and> (\<forall>k. k \<notin> set (i # rest) \<longrightarrow> gj ! k = g ! k)
              \<and> ?r ! j = updateNodeLoraCode (envAt genv gj j) c md (g ! j)"
  proof
    fix j assume j: "j \<in> set (i # rest)"
    show "\<exists>gj. length gj = length g \<and> gj ! j = g ! j
              \<and> (\<forall>k. k \<notin> set (i # rest) \<longrightarrow> gj ! k = g ! k)
              \<and> ?r ! j = updateNodeLoraCode (envAt genv gj j) c md (g ! j)"
    proof (cases "j = i")
      case True
      have "?r ! i = ?g1 ! i" using IH i_notin by blast
      with at_i True show ?thesis by (intro exI [of _ g]) simp
    next
      case False
      with j have jr: "j \<in> set rest" by simp
      with IH obtain gj where gj: "length gj = length ?g1" "gj ! j = ?g1 ! j"
          "\<forall>k. k \<notin> set rest \<longrightarrow> gj ! k = ?g1 ! k"
          "?r ! j = updateNodeLoraCode (envAt genv gj j) c md (?g1 ! j)"
        by blast
      show ?thesis
        using gj False len1 other by (intro exI [of _ gj]) auto
    qed
  qed
  from A B C show ?case by simp
qed

lemma numericNodeId_minus_one:
  "numericNodeId genv (message\<lparr>node_id := Some (IdNum (- 1))\<rparr>) = Some (- 1)
   \<and> numericNodeId genv (message\<lparr>node_id := Some (IdStr ''-1'')\<rparr>) = Some (- 1)"
  by (simp add: numericNodeId_def jsNumber_def decimalInt_def isDigit_def)

lemma handleLoraCodeUpdate_broadcast:
  assumes "numericNodeId genv message = Some (- 1)"
  shows "handleLoraCodeUpdate genv message g =
     fold (updateNodeAt genv (case lora_code message of Some c \<Rightarrow> c | None \<Rightarrow> [])
             (case msg_mode message of Some m \<Rightarrow> m | None \<Rightarrow> ''append''))
       (filter (\<lambda>i. comfyClass (g ! i) = loaderClass) [0..<length g]) g"
  using assms by (simp add: handleLoraCodeUpdate_def Let_def)

lemma handleLoraCodeUpdate_targeted:
  assumes "numericNodeId genv message \<noteq> Some (- 1)"
  shows "handleLoraCodeUpdate genv message g =
     (case lookupNode genv g (graph_id message) (numericNodeId genv message) of
        None \<Rightarrow> g
      | Some i \<Rightarrow>
          if comfyClass (g ! i) \<noteq> loaderClass \<and> comfyClass (g ! i) \<noteq> stackerClass \<and>
             comfyClass (g ! i) \<noteq> wanVideoClass
          then g
          else updateNodeAt genv (case lora_code message of Some c \<Rightarrow> c | None \<Rightarrow> [])
                 (case msg_mode message of Some m \<Rightarrow> m | None \<Rightarrow> ''append'') i g)"
  using assms by (simp add: handleLoraCodeUpdate_def Let_def)

text \<open>
  C5, as amended. A node id of \<open>-1\<close>, as a number or as the string \<open>"-1"\<close>, is the broadcast
  id. On a broadcast event the handler applies \<^verbatim>\<open>updateNodeLoraCode\<close> to every node of class
  \<open>Lora Loader (Remote, LoraManager)\<close>, each exactly once (a loader node with a text widget
  ends up holding the text computed from its own previous text), and leaves every node of
  another class as it was. On any other node id, when the lookup finds a node of one of
  the three remote classes, exactly that node is replaced by its update and all other
  nodes are unchanged.
\<close>

theorem broadcast_reaches_loader_nodes_only:
  "let loraCode = (case lora_code message of Some c \<Rightarrow> c | None \<Rightarrow> []);
       md = (case msg_mode message of Some m \<Rightarrow> m | None \<Rightarrow> ''append'');
       g' = handleLoraCodeUpdate genv message g
   in numericNodeId genv (message\<lparr>node_id := Some (IdNum (- 1))\<rparr>) = Some (- 1)
    \<and> numericNodeId genv (message\<lparr>node_id := Some (IdStr ''-1'')\<rparr>) = Some (- 1)
    \<and> (numericNodeId genv message = Some (- 1) \<longrightarrow>
          length g' = length g
          \<and> (\<forall>j<length g. comfyClass (g ! j) \<noteq> loaderClass \<longrightarrow> g' ! j = g ! j)
          \<and> (\<forall>j<length g. comfyClass (g ! j) = loaderClass \<longrightarrow>
                (\<exists>gj. length gj = length g \<and> gj ! j = g ! j
                   \<and> (\<forall>k<length g. comfyClass (g ! k) \<noteq> loaderClass \<longrightarrow> gj ! k = g ! k)
                   \<and> g' ! j = updateNodeLoraCode (envAt genv gj j) loraCode md (g ! j))
                \<and> (\<forall>w. inputWidget (g ! j) = Some w \<longrightarrow>
                      inputWidget (g' ! j)
                        = Some (w\<lparr>wvalue := Some (nextValue md (wvalue w) loraCode)\<rparr>))))
    \<and> (numericNodeId genv message \<noteq> Some (- 1) \<longrightarrow>
          (\<forall>i. lookupNode genv g (graph_id message) (numericNodeId genv message) = Some i
                \<and> (comfyClass (g ! i) = loaderClass \<or> comfyClass (g ! i) = stackerClass
                     \<or> comfyClass (g ! i) = wanVideoClass) \<longrightarrow>
                g' = g[i := updateNodeLoraCode (envAt genv g i) loraCode md (g ! i)]))"
proof -
  let ?c = "case lora_code message of Some c \<Rightarrow> c | None \<Rightarrow> []"
  let ?md = "case msg_mode message of Some m \<Rightarrow> m | None \<Rightarrow> ''append''"
  let ?js = "filter (\<lambda>i. comfyClass (g ! i) = loaderClass) [0..<length g]"
  let ?g' = "handleLoraCodeUpdate genv message g"
  have dist: "distinct ?js" by simp
  have bnd: "\<forall>i\<in>set ?js. i < length g" by simp
  note F = fold_updateNodeAt [OF dist bnd, of genv ?c ?md]
  have bc: "numericNodeId genv message = Some (- 1) \<longrightarrow>
          length ?g' = length g
          \<and> (\<forall>j<length g. comfyClass (g ! j) \<noteq> loaderClass \<longrightarrow> ?g' ! j = g ! j)
          \<and> (\<forall>j<length g. comfyClass (g ! j) = loaderClass \<longrightarrow>
                (\<exists>gj. length gj = length g \<and> gj ! j = g ! j
                   \<and> (\<forall>k<length g. comfyClass (g ! k) \<noteq> loaderClass \<longrightarrow> gj ! k = g ! k)
                   \<and> ?g' ! j = updateNodeLoraCode (envAt genv gj j) ?c ?md (g ! j))
                \<and> (\<forall>w. inputWidget (g ! j) = Some w \<longrightarrow>
                      inputWidget (?g' ! j)
                        = Some (w\<lparr>wvalue := Some (nextValue ?md (wvalue w) ?c)\<rparr>)))"
  proof
    assume b: "numericNodeId genv message = Some (- 1)"
    have eq: "?g' = fold (updateNodeAt genv ?c ?md) ?js g"
      using b by (rule handleLoraCodeUpdate_broadcast)
    have len: "length ?g' = length g" using F eq by simp
    have skip: "\<forall>j<length g. comfyClass (g ! j) \<noteq> loaderClass \<longrightarrow> ?g' ! j = g ! j"
      using F eq by simp
    have hit: "\<forall>j<length g. comfyClass (g ! j) = loaderClass \<longrightarrow>
                (\<exists>gj. length gj = length g \<and> gj ! j = g ! j
                   \<and> (\<forall>k<length g. comfyClass (g ! k) \<noteq> loaderClass \<longrightarrow> gj ! k = g ! k)
                   \<and> ?g' ! j = updateNodeLoraCode (envAt genv gj j) ?c ?md (g ! j))
                \<and> (\<forall>w. inputWidget (g ! j) = Some w \<longrightarrow>
                      inputWidget (?g' ! j)
                        = Some (w\<lparr>wvalue := Some (nextValue ?md (wvalue w) ?c)\<rparr>))"
    proof (intro allI impI)
      fix j assume j: "j < length g" and cl: "comfyClass (g ! j) = loaderClass"
      then have "j \<in> set ?js" by simp
      with F obtain gj where gj: "length gj = length g" "gj ! j = g ! j"
          "\<forall>k. k \<notin> set ?js \<longrightarrow> gj ! k = g ! k"
          "fold (updateNodeAt genv ?c ?md) ?js g ! j
             = updateNodeLoraCode (envAt genv gj j) ?c ?md (g ! j)"
        by blast
      have one: "\<exists>gj. length gj = length g \<and> gj ! j = g ! j
                   \<and> (\<forall>k<length g. comfyClass (g ! k) \<noteq> loaderClass \<longrightarrow> gj ! k = g ! k)
                   \<and> ?g' ! j = updateNodeLoraCode (envAt genv gj j) ?c ?md (g ! j)"
        using gj eq by (intro exI [of _ gj]) simp
      have two: "\<forall>w. inputWidget (g ! j) = Some w \<longrightarrow>
                      inputWidget (?g' ! j)
                        = Some (w\<lparr>wvalue := Some (nextValue ?md (wvalue w) ?c)\<rparr>)"
        using gj(4) eq by (simp add: updateNodeLoraCode_inputWidget)
      from one two show "(\<exists>gj. length gj = length g \<and> gj ! j = g ! j
                   \<and> (\<forall>k<length g. comfyClass (g ! k) \<noteq> loaderClass \<longrightarrow> gj ! k = g ! k)
                   \<and> ?g' ! j = updateNodeLoraCode (envAt genv gj j) ?c ?md (g ! j))
                \<and> (\<forall>w. inputWidget (g ! j) = Some w \<longrightarrow>
                      inputWidget (?g' ! j)
                        = Some (w\<lparr>wvalue := Some (nextValue ?md (wvalue w) ?c)\<rparr>))"
        by (rule conjI)
    qed
    from len skip hit show "length ?g' = length g
          \<and> (\<forall>j<length g. comfyClass (g ! j) \<noteq> loaderClass \<longrightarrow> ?g' ! j = g ! j)
          \<and> (\<forall>j<length g. comfyClass (g ! j) = loaderClass \<longrightarrow>
                (\<exists>gj. length gj = length g \<and> gj ! j = g ! j
                   \<and> (\<forall>k<length g. comfyClass (g ! k) \<noteq> loaderClass \<longrightarrow> gj ! k = g ! k)
                   \<and> ?g' ! j = updateNodeLoraCode (envAt genv gj j) ?c ?md (g ! j))
                \<and> (\<forall>w. inputWidget (g ! j) = Some w \<longrightarrow>
                      inputWidget (?g' ! j)
                        = Some (w\<lparr>wvalue := Some (nextValue ?md (wvalue w) ?c)\<rparr>)))"
      by (intro conjI)
  qed
  have tg: "numericNodeId genv message \<noteq> Some (- 1) \<longrightarrow>
          (\<forall>i. lookupNode genv g (graph_id message) (numericNodeId genv message) = Some i
                \<and> (comfyClass (g ! i) = loaderClass \<or> comfyClass (g ! i) = stackerClass
                     \<or> comfyClass (g ! i) = wanVideoClass) \<longrightarrow>
                ?g' = g[i := updateNodeLoraCode (envAt genv g i) ?c ?md (g ! i)])"
    by (auto simp add: handleLoraCodeUpdate_targeted updateNodeAt_def)
  show ?thesis
    unfolding Let_def
    using numericNodeId_minus_one [of genv message] bc tg by (intro conjI) simp_all
qed

theorem broadcast_reaches_loader_nodes_only_witness:
  "numericNodeId exGraphEnv (exMessage (IdStr ''-1'')) = Some (- 1)
   \<and> length (handleLoraCodeUpdate exGraphEnv (exMessage (IdStr ''-1'')) [exStacker, exLoader]) = 2
   \<and> handleLoraCodeUpdate exGraphEnv (exMessage (IdStr ''-1'')) [exStacker, exLoader] ! 0
       = exStacker
   \<and> inputWidget (handleLoraCodeUpdate exGraphEnv (exMessage (IdStr ''-1'')) [exStacker, exLoader] ! 1)
       = Some \<lparr>wvalue = Some ''foo <lora:bar:0.8>'', callback = Some LoaderCallback\<rparr>
   \<and> handleLoraCodeUpdate exGraphEnv (exMessage (IdNum 0)) [exStacker, exLoader]
       = [updateNodeLoraCode exEnv ''<lora:bar:0.8>'' ''append'' exStacker, exLoader]"
proof -
  have b: "numericNodeId exGraphEnv (exMessage (IdStr ''-1'')) = Some (- 1)"
    by (simp add: exMessage_def numericNodeId_def jsNumber_def decimalInt_def isDigit_def)
  note T = broadcast_reaches_loader_nodes_only
    [of "exMessage (IdStr ''-1'')" exGraphEnv "[exStacker, exLoader]", unfolded Let_def,
     THEN conjunct2, THEN conjunct2, THEN conjunct1, rule_format, OF b]
  have len: "length (handleLoraCodeUpdate exGraphEnv (exMessage (IdStr ''-1'')) [exStacker, exLoader]) = 2"
    using T [THEN conjunct1] by simp
  have skip: "handleLoraCodeUpdate exGraphEnv (exMessage (IdStr ''-1'')) [exStacker, exLoader] ! 0
       = exStacker"
    using T [THEN conjunct2, THEN conjunct1, rule_format, of 0]
    by (simp add: exStacker_def)
  have hit: "inputWidget (handleLoraCodeUpdate exGraphEnv (exMessage (IdStr ''-1'')) [exStacker, exLoader] ! 1)
       = Some \<lparr>wvalue = Some ''foo <lora:bar:0.8>'', callback = Some LoaderCallback\<rparr>"
    using T [THEN conjunct2, THEN conjunct2, rule_format, of 1, THEN conjunct2, rule_format,
        of "\<lparr>wvalue = Some ''foo'', callback = Some LoaderCallback\<rparr>"]
    by (simp add: exLoader_def exMessage_def nextValue_def trim_def isWhiteSpace_def)
  have n0: "numericNodeId exGraphEnv (exMessage (IdNum 0)) = Some 0"
    by (simp add: exMessage_def numericNodeId_def)
  have t: "numericNodeId exGraphEnv (exMessage (IdNum 0)) \<noteq> Some (- 1)"
    by (simp add: n0)
  have gid: "graph_id (exMessage (IdNum 0)) = None" by (simp add: exMessage_def)
  have found: "lookupNode exGraphEnv [exStacker, exLoader] (graph_id (exMessage (IdNum 0)))
                 (numericNodeId exGraphEnv (exMessage (IdNum 0))) = Some 0
               \<and> (comfyClass ([exStacker, exLoader] ! 0) = loaderClass
                   \<or> comfyClass ([exStacker, exLoader] ! 0) = stackerClass
                   \<or> comfyClass ([exStacker, exLoader] ! 0) = wanVideoClass)"
    unfolding n0 gid
    by (simp add: lookupNode_def exGraphEnv_def exStacker_def)
  have single: "handleLoraCodeUpdate exGraphEnv (exMessage (IdNum 0)) [exStacker, exLoader]
       = [updateNodeLoraCode exEnv ''<lora:bar:0.8>'' ''append'' exStacker, exLoader]"
    using broadcast_reaches_loader_nodes_only
      [of "exMessage (IdNum 0)" exGraphEnv "[exStacker, exLoader]", unfolded Let_def,
       THEN conjunct2, THEN conjunct2, THEN conjunct2, rule_format, OF t found]
    by (simp add: exMessage_def exGraphEnv_def)
  from b len skip hit single show ?thesis by (intro conjI)
qed

text \<open>
  The claim C5 as stated (a broadcast reaches every node of the graph) fails on a graph
  holding one stacker node: the broadcast leaves the node as it was, although the update
  applied to that node would change its text.
\<close>

theorem broadcast_skips_stacker_counterexample:
  "numericNodeId exGraphEnv (exMessage (IdNum (- 1))) = Some (- 1)
   \<and> handleLoraCodeUpdate exGraphEnv (exMessage (IdNum (- 1))) [exStacker] = [exStacker]
   \<and> updateNodeLoraCode (envAt exGraphEnv [exStacker] 0) ''<lora:bar:0.8>'' ''append'' exStacker
       \<noteq> exStacker"
proof -
  have b: "numericNodeId exGraphEnv (exMessage (IdNum (- 1))) = Some (- 1)"
    by (simp add: exMessage_def numericNodeId_def)
  have same: "handleLoraCodeUpdate exGraphEnv (exMessage (IdNum (- 1))) [exStacker] = [exStacker]"
    by (simp add: handleLoraCodeUpdate_broadcast [OF b] exStacker_def)
  have w: "inputWidget exStacker = Some \<lparr>wvalue = Some ''foo'', callback = Some StackerCallback\<rparr>"
    by (simp add: exStacker_def)
  have "inputWidget (updateNodeLoraCode (envAt exGraphEnv [exStacker] 0) ''<lora:bar:0.8>'' ''append'' exStacker)
          \<noteq> inputWidget exStacker"
    by (simp add: updateNodeLoraCode_inputWidget [OF w] w nextValue_def trim_def isWhiteSpace_def)
  then have diff: "updateNodeLoraCode (envAt exGraphEnv [exStacker] 0) ''<lora:bar:0.8>'' ''append'' exStacker
       \<noteq> exStacker"
    by auto
  from b same diff show ?thesis by (intro conjI)
qed

text \<open>
  C10. On an event whose node id is not \<open>-1\<close>: when the lookup finds no node, or the node
  found is of none of the three remote classes, or the node found has no text widget, the
  handler returns the graph unchanged: no node's text, entry list, flags, pending rewrite
  or collaborator log is touched.
\<close>

theorem targeted_update_without_target_changes_nothing:
  assumes "numericNodeId genv message \<noteq> Some (- 1)"
    and "lookupNode genv g (graph_id message) (numericNodeId genv message) = None
         \<or> (\<exists>i. lookupNode genv g (graph_id message) (numericNodeId genv message) = Some i
               \<and> ((comfyClass (g ! i) \<noteq> loaderClass \<and> comfyClass (g ! i) \<noteq> stackerClass
                     \<and> comfyClass (g ! i) \<noteq> wanVideoClass)
                   \<or> inputWidget (g ! i) = None))"
  shows "handleLoraCodeUpdate genv message g = g"
  using assms
  by (auto simp add: handleLoraCodeUpdate_targeted updateNodeAt_def updateNodeLoraCode_no_widget)

theorem targeted_update_without_target_changes_nothing_witness:
  "numericNodeId exGraphEnv (exMessage (IdNum 7)) \<noteq> Some (- 1)
   \<and> lookupNode exGraphEnv [exStacker, exLoader] None (Some 7) = None
   \<and> handleLoraCodeUpdate exGraphEnv (exMessage (IdNum 7)) [exStacker, exLoader]
       = [exStacker, exLoader]
   \<and> handleLoraCodeUpdate exGraphEnv (exMessage (IdStr ''1''))
        [exStacker, exLoader\<lparr>comfyClass := ''KSampler''\<rparr>]
       = [exStacker, exLoader\<lparr>comfyClass := ''KSampler''\<rparr>]
   \<and> handleLoraCodeUpdate exGraphEnv (exMessage (IdNum 0))
        [exStacker\<lparr>inputWidget := None\<rparr>, exLoader]
       = [exStacker\<lparr>inputWidget := None\<rparr>, exLoader]"
proof -
  let ?foreign = "[exStacker, exLoader\<lparr>comfyClass := ''KSampler''\<rparr>]"
  let ?bare = "[exStacker\<lparr>inputWidget := None\<rparr>, exLoader]"
  have n: "numericNodeId exGraphEnv (exMessage (IdNum 7)) = Some 7"
    by (simp add: exMessage_def numericNodeId_def)
  have t: "numericNodeId exGraphEnv (exMessage (IdNum 7)) \<noteq> Some (- 1)"
    by (simp add: n)
  have l: "lookupNode exGraphEnv [exStacker, exLoader] None (Some 7) = None"
    by (simp add: lookupNode_def exGraphEnv_def)
  have gid: "\<And>i. graph_id (exMessage i) = None" by (simp add: exMessage_def)
  have l': "lookupNode exGraphEnv [exStacker, exLoader] (graph_id (exMessage (IdNum 7)))
              (numericNodeId exGraphEnv (exMessage (IdNum 7))) = None"
    using l gid n by simp
  have missing: "handleLoraCodeUpdate exGraphEnv (exMessage (IdNum 7)) [exStacker, exLoader]
       = [exStacker, exLoader]"
    by (rule targeted_update_without_target_changes_nothing [OF t disjI1 [OF l']])
  have n1: "numericNodeId exGraphEnv (exMessage (IdStr ''1'')) = Some 1"
    by (simp add: exMessage_def numericNodeId_def jsNumber_def decimalInt_def isDigit_def)
  have t1: "numericNodeId exGraphEnv (exMessage (IdStr ''1'')) \<noteq> Some (- 1)"
    by (simp add: n1)
  have f1: "\<exists>i. lookupNode exGraphEnv ?foreign (graph_id (exMessage (IdStr ''1'')))
                  (numericNodeId exGraphEnv (exMessage (IdStr ''1''))) = Some i
               \<and> ((comfyClass (?foreign ! i) \<noteq> loaderClass \<and> comfyClass (?foreign ! i) \<noteq> stackerClass
                     \<and> comfyClass (?foreign ! i) \<noteq> wanVideoClass)
                   \<or> inputWidget (?foreign ! i) = None)"
    unfolding n1 gid
    by (intro exI [of _ 1]) (simp add: lookupNode_def exGraphEnv_def)
  have foreign: "handleLoraCodeUpdate exGraphEnv (exMessage (IdStr ''1'')) ?foreign = ?foreign"
    by (rule targeted_update_without_target_changes_nothing [OF t1 disjI2 [OF f1]])
  have n0: "numericNodeId exGraphEnv (exMessage (IdNum 0)) = Some 0"
    by (simp add: exMessage_def numericNodeId_def)
  have t0: "numericNodeId exGraphEnv (exMessage (IdNum 0)) \<noteq> Some (- 1)"
    by (simp add: n0)
  have f0: "\<exists>i. lookupNode exGraphEnv ?bare (graph_id (exMessage (IdNum 0)))
                  (numericNodeId exGraphEnv (exMessage (IdNum 0))) = Some i
               \<and> ((comfyClass (?bare ! i) \<noteq> loaderClass \<and> comfyClass (?bare ! i) \<noteq> stackerClass
                     \<and> comfyClass (?bare ! i) \<noteq> wanVideoClass)
                   \<or> inputWidget (?bare ! i) = None)"
    unfolding n0 gid
    by (intro exI [of _ 0]) (simp add: lookupNode_def exGraphEnv_def)
  have bare: "handleLoraCodeUpdate exGraphEnv (exMessage (IdNum 0)) ?bare = ?bare"
    by (rule targeted_update_without_target_changes_nothing [OF t0 disjI2 [OF f0]])
  from t l missing foreign bare show ?thesis by (intro conjI)
qed

section \<open>The stacker's contribution to the trigger words\<close>

lemma stacker_lorasCallback_idle:
  assumes "\<not> isUpdating n"
  shows "stacker_lorasCallback env v n =
     n\<lparr>effects := effects n @
          [TriggerWords (if isNodeActive n then activeNames v else {}), DownstreamLoaders],
       pending := Some v\<rparr>"
  using assms
  by (intro Node.equality)
     (auto simp add: stacker_lorasCallback_def updateConnectedTriggerWords_def
        updateDownstreamLoaders_def scheduleInputSync_def isNodeActive_def Let_def)

lemma activeNames_eq: "activeNames v = {name e | e. e \<in> set v \<and> active e}"
  by (auto simp add: activeNames_def)

lemma isNodeActive_iff: "isNodeActive n \<longleftrightarrow> mode n \<in> {None, Some 0, Some 3}"
  by (auto simp add: isNodeActive_def)

text \<open>
  C7. On a stacker node whose guard is clear, a change of its entries (through the
  structured widget, or through the text widget and the merge) hands to
  \<^verbatim>\<open>updateConnectedTriggerWords\<close> the empty set when the node's mode is none of
  \<^verbatim>\<open>undefined\<close>, 0 and 3, whatever the entries' \<open>active\<close> flags are, and exactly the names of
  the entries with \<open>active = true\<close> otherwise: of the new value in the structured-list
  handler, of the merged list in the text handler, where \<^verbatim>\<open>getActiveLorasFromNode\<close> is as
  the specification describes it.
\<close>

theorem stacker_contributes_by_mode:
  assumes "\<not> isUpdating n"
  shows "let env = lib\<lparr>getActiveLorasFromNode := getActiveLorasFromNodeSpec\<rparr>;
             merged = mergeLoras env t (case lorasValue n of None \<Rightarrow> [] | Some l \<Rightarrow> l)
         in (mode n \<notin> {None, Some 0, Some 3} \<longrightarrow>
               effects (stacker_lorasCallback env v n)
                 = effects n @ [TriggerWords {}, DownstreamLoaders]
               \<and> effects (stacker_inputCallback env t n)
                 = effects n @ [TriggerWords {}, DownstreamLoaders])
          \<and> (mode n \<in> {None, Some 0, Some 3} \<longrightarrow>
               effects (stacker_lorasCallback env v n)
                 = effects n @ [TriggerWords {name e | e. e \<in> set v \<and> active e},
                                DownstreamLoaders]
               \<and> effects (stacker_inputCallback env t n)
                 = effects n @ [TriggerWords {name e | e. e \<in> set merged \<and> active e},
                                DownstreamLoaders])"
  using assms
  unfolding Let_def
  by (simp add: stacker_lorasCallback_idle stacker_inputCallback_idle isNodeActive_iff
      getActiveLorasFromNodeSpec_def activeNames_eq Let_def)

theorem stacker_contributes_by_mode_witness:
  "\<not> isUpdating exStacker
   \<and> effects (stacker_lorasCallback exEnv
        [\<lparr>name = ''bar'', strength = 1, active = True\<rparr>] exStacker)
       = [TriggerWords {}, DownstreamLoaders]
   \<and> effects (stacker_lorasCallback exEnv
        [\<lparr>name = ''bar'', strength = 1, active = True\<rparr>,
         \<lparr>name = ''baz'', strength = 1, active = False\<rparr>] (exStacker\<lparr>mode := Some 3\<rparr>))
       = [TriggerWords {''bar''}, DownstreamLoaders]"
proof -
  have env: "exEnv\<lparr>getActiveLorasFromNode := getActiveLorasFromNodeSpec\<rparr> = exEnv"
    by (simp add: exEnv_def)
  have idle: "\<not> isUpdating exStacker" by (simp add: exStacker_def)
  have idle3: "\<not> isUpdating (exStacker\<lparr>mode := Some 3\<rparr>)" by (simp add: exStacker_def)
  have bypass: "effects (stacker_lorasCallback exEnv
        [\<lparr>name = ''bar'', strength = 1, active = True\<rparr>] exStacker)
       = [TriggerWords {}, DownstreamLoaders]"
    using stacker_contributes_by_mode [OF idle, of exEnv "[]" "[\<lparr>name = ''bar'', strength = 1, active = True\<rparr>]",
        unfolded Let_def env, THEN conjunct1]
    by (simp add: exStacker_def)
  have on: "effects (stacker_lorasCallback exEnv
        [\<lparr>name = ''bar'', strength = 1, active = True\<rparr>,
         \<lparr>name = ''baz'', strength = 1, active = False\<rparr>] (exStacker\<lparr>mode := Some 3\<rparr>))
       = [TriggerWords {''bar''}, DownstreamLoaders]"
    using stacker_contributes_by_mode [OF idle3, of exEnv "[]"
        "[\<lparr>name = ''bar'', strength = 1, active = True\<rparr>,
          \<lparr>name = ''baz'', strength = 1, active = False\<rparr>]",
        unfolded Let_def env, THEN conjunct2, folded activeNames_eq]
    by (simp add: exStacker_def activeNames_def)
  from idle bypass on show ?thesis by (intro conjI)
qed

section \<open>Route precedence\<close>

lemma routeRequest_first_match:
  assumes "matchesPattern (pathPattern r) path"
    and "\<not> list_ex (\<lambda>q. matchesPattern (pathPattern q) path) pre"
  shows "routeRequest (pre @ r # post) path = Some r"
  using assms
  by (induction pre) (simp_all add: routeRequest_def)

text \<open>
  C8. The route table is scanned in order and the first matching rule is the result: a
  matching rule preceded only by rules that do not match is returned, whatever follows it.
  With the table \<open>[/api/lm/loras/get_trigger_words -> localHandle, /api/lm/* -> forward]\<close> the
  path \<open>/api/lm/loras/get_trigger_words\<close> is handled locally, although the second rule
  matches it too, and \<open>/api/lm/loras/list\<close> is forwarded.
\<close>

theorem route_first_match_wins:
  "(matchesPattern (pathPattern r) path
      \<and> \<not> list_ex (\<lambda>q. matchesPattern (pathPattern q) path) pre
      \<longrightarrow> routeRequest (pre @ r # post) path = Some r)
   \<and> (let table = [\<lparr>pathPattern = ''/api/lm/loras/get_trigger_words'',
                      disposition = localHandle, broadcastEvent = e1\<rparr>,
                    \<lparr>pathPattern = ''/api/lm/*'',
                      disposition = forward, broadcastEvent = e2\<rparr>]
       in map_option disposition (routeRequest table ''/api/lm/loras/get_trigger_words'')
            = Some localHandle
        \<and> map_option disposition (routeRequest table ''/api/lm/loras/list'') = Some forward
        \<and> matchesPattern ''/api/lm/*'' ''/api/lm/loras/get_trigger_words'')"
proof -
  have general: "matchesPattern (pathPattern r) path
      \<and> \<not> list_ex (\<lambda>q. matchesPattern (pathPattern q) path) pre
      \<longrightarrow> routeRequest (pre @ r # post) path = Some r"
    by (simp add: routeRequest_first_match)
  have table: "let table = [\<lparr>pathPattern = ''/api/lm/loras/get_trigger_words'',
                      disposition = localHandle, broadcastEvent = e1\<rparr>,
                    \<lparr>pathPattern = ''/api/lm/*'',
                      disposition = forward, broadcastEvent = e2\<rparr>]
       in map_option disposition (routeRequest table ''/api/lm/loras/get_trigger_words'')
            = Some localHandle
        \<and> map_option disposition (routeRequest table ''/api/lm/loras/list'') = Some forward
        \<and> matchesPattern ''/api/lm/*'' ''/api/lm/loras/get_trigger_words''"
    by (simp add: Let_def routeRequest_def matchesPattern_def)
  from general table show ?thesis by (rule conjI)
qed

theorem route_first_match_wins_witness:
  "routeRequest
     [\<lparr>pathPattern = ''/api/lm/update-lora-code'', disposition = localHandle,
        broadcastEvent = Some ''lora_code_update''\<rparr>,
      \<lparr>pathPattern = ''/api/lm/*'', disposition = forward, broadcastEvent = None\<rparr>,
      \<lparr>pathPattern = ''/loras'', disposition = forward, broadcastEvent = None\<rparr>]
     ''/api/lm/loras/list''
   = Some \<lparr>pathPattern = ''/api/lm/*'', disposition = forward, broadcastEvent = None\<rparr>"
proof -
  let ?r = "\<lparr>pathPattern = ''/api/lm/*'', disposition = forward, broadcastEvent = None\<rparr>"
  let ?pre = "[\<lparr>pathPattern = ''/api/lm/update-lora-code'', disposition = localHandle,
        broadcastEvent = Some ''lora_code_update''\<rparr>]"
  let ?post = "[\<lparr>pathPattern = ''/loras'', disposition = forward, broadcastEvent = None\<rparr>]"
  have m: "matchesPattern (pathPattern ?r) ''/api/lm/loras/list''
      \<and> \<not> list_ex (\<lambda>q. matchesPattern (pathPattern q) ''/api/lm/loras/list'') ?pre"
    by (simp add: matchesPattern_def)
  from route_first_match_wins [of ?r "''/api/lm/loras/list''" ?pre ?post, THEN conjunct1,
      rule_format, OF m]
  show ?thesis by simp
qed

end
